theory Spec2Isabelle
  imports Complex_Main "HOL-Library.Log_Nat"
begin

section \<open>The spread-adjusting script \<open>SpreadsAdjustedOnVolatility\<close>\<close>

text \<open>
  The source is \<^verbatim>\<open>scripts/spreads_adjusted_on_volatility_script.py\<close>: one class with
  the methods \<^verbatim>\<open>on_tick\<close>, \<^verbatim>\<open>log_to_file\<close> and \<^verbatim>\<open>on_status\<close>, deriving from the host's
  \<^verbatim>\<open>ScriptBase\<close>.

  Modelling decisions.
  \<^item> Python's \<^verbatim>\<open>Decimal\<close> values are rationals (\<open>rat\<close>). Every sum and difference is
    rounded to 28 significant digits, half to even, as the default context of Python's
    \<^verbatim>\<open>decimal\<close> module does; comparisons and \<^verbatim>\<open>max\<close> are exact. NaN, infinities, the
    signed zero, the exponent limits and the trailing zeros a \<^verbatim>\<open>Decimal\<close> carries are
    outside the model.
  \<^item> Python's \<^verbatim>\<open>int\<close> is \<open>int\<close>.
  \<^item> \<^verbatim>\<open>None\<close> is \<open>None\<close>: the two \<^verbatim>\<open>original_*_spread\<close> attributes and the results of
    the two volatility queries are options.
  \<^item> Everything \<^verbatim>\<open>on_tick\<close> obtains from outside the object during one invocation is a
    field of the record \<open>host\<close>: the inherited methods \<^verbatim>\<open>avg_price_volatility\<close>,
    \<^verbatim>\<open>median_price_volatility\<close> and \<^verbatim>\<open>round_by_step\<close> (none of them is in the source
    file) and the two readings of the Sydney clock.
  \<^item> Effects are explicit state: the attributes of the object, the parameters object it
    holds, the messages passed to \<^verbatim>\<open>notify\<close>, and the lines of the log file.
  \<^item> An operand that is \<^verbatim>\<open>None\<close> in an addition raises \<^verbatim>\<open>TypeError\<close>; the model returns
    \<open>Inl TypeError\<close> there.
\<close>

subsection \<open>Data\<close>

text \<open>
  The parameters object owned by the host. The script reads and writes \<^verbatim>\<open>bid_spread\<close> and
  \<^verbatim>\<open>ask_spread\<close>; all its other attributes are the extension part \<open>more\<close> of the record.
\<close>

record pmm_params =
  bid_spread :: rat
  ask_spread :: rat

text \<open>
  What one invocation of \<^verbatim>\<open>on_tick\<close> gets from the host: the three inherited methods, the
  hour \<^verbatim>\<open>int(datetime.now(tz_syd).strftime("%H"))\<close> of the first clock reading, and the
  second clock reading as formatted by \<^verbatim>\<open>%Y-%m-%d %H:%M:%S\<close>.
\<close>

record host =
  avg_price_volatility :: "int \<Rightarrow> int \<Rightarrow> rat option"
  median_price_volatility :: "int \<Rightarrow> int \<Rightarrow> rat option"
  round_by_step :: "rat \<Rightarrow> rat \<Rightarrow> rat"
  hour_syd :: int
  stamp_syd :: string

text \<open>
  One line of the log file. The line's text is a time stamp followed by six numbers in
  fixed-point notation; the model keeps the values that are formatted, in the order of
  the line, and not their rendering.
\<close>

record log_line =
  stamp :: string
  avg_short_vol :: rat
  median_long_vol :: rat
  spread_adj :: rat
  overnight_spread_adj :: rat
  new_bid :: rat
  new_ask :: rat

text \<open>
  The object: its attributes, the parameters object, and the two outputs (the messages given
  to \<^verbatim>\<open>notify\<close>, oldest first, and the lines of \<^verbatim>\<open>logs/logs_script_out.txt\<close>, oldest first).
\<close>

record 'a script =
  ticks :: int
  hour_of_day :: int
  original_bid_spread :: "rat option"
  original_ask_spread :: "rat option"
  pmm_parameters :: "'a pmm_params_scheme"
  notifications :: "string list"
  log_file :: "log_line list"

datatype error = TypeError

subsection \<open>Class attributes and construction\<close>

definition interval :: int where
  "interval = 10"

definition short_period :: int where
  "short_period = 5"

definition long_period :: int where
  "long_period = 900"

text \<open>
  \<^verbatim>\<open>__init__\<close>: both originals are \<^verbatim>\<open>None\<close>; \<^verbatim>\<open>ticks\<close> and \<^verbatim>\<open>hour_of_day\<close> have their class
  defaults. The parameters object is the host's; nothing has been notified and the log
  has the lines \<open>old\<close> it had before.
\<close>

definition init :: "'a pmm_params_scheme \<Rightarrow> log_line list \<Rightarrow> 'a script" where
  "init p old =
     \<lparr>ticks = 0, hour_of_day = 0, original_bid_spread = None, original_ask_spread = None,
      pmm_parameters = p, notifications = [], log_file = old\<rparr>"

subsection \<open>Rendering of integers\<close>

text \<open>\<^verbatim>\<open>str\<close> of a Python \<^verbatim>\<open>int\<close>, as the f-strings use it.\<close>

fun str_nat :: "nat \<Rightarrow> string" where
  "str_nat n =
     (if n < 10 then [''0123456789'' ! n]
      else str_nat (n div 10) @ [''0123456789'' ! (n mod 10)])"

declare str_nat.simps [simp del]

definition str_int :: "int \<Rightarrow> string" where
  "str_int i = (if i < 0 then CHR ''-'' # str_nat (nat (- i)) else str_nat (nat i))"

subsection \<open>Decimal arithmetic\<close>

text \<open>
  The result of an arithmetic operation on \<^verbatim>\<open>Decimal\<close> values is the exact result rounded
  to the precision of the context. The script does not change the context, so the
  precision is 28 significant digits and the rounding is half to even.

  \<open>adjusted x\<close> is the exponent of the leading digit of \<open>x\<close> (what Python calls
  \<^verbatim>\<open>x.adjusted()\<close>): the number of digits of the integer part less one when \<open>\<bar>x\<bar> \<ge> 1\<close>,
  and otherwise minus the number of digits of the largest integer below \<open>1 / \<bar>x\<bar>\<close>.
  \<open>dec_round x\<close> keeps the 28 digits from that exponent down.
\<close>

definition adjusted :: "rat \<Rightarrow> int" where
  "adjusted x =
     (if 1 \<le> \<bar>x\<bar> then int (floorlog 10 (nat \<lfloor>\<bar>x\<bar>\<rfloor>)) - 1
      else - int (floorlog 10 (nat (\<lceil>1 / \<bar>x\<bar>\<rceil> - 1))))"

definition round_half_even :: "rat \<Rightarrow> int" where
  "round_half_even x =
     (let f = \<lfloor>x\<rfloor>; d = x - of_int f
      in if d < 1 / 2 then f else if 1 / 2 < d then f + 1 else if even f then f else f + 1)"

definition dec_round :: "rat \<Rightarrow> rat" where
  "dec_round x =
     (if x = 0 then 0
      else (let q = 10 powi (adjusted x - 27) in of_int (round_half_even (x / q)) * q))"

definition dec_add :: "rat \<Rightarrow> rat \<Rightarrow> rat" where
  "dec_add x y = dec_round (x + y)"

definition dec_sub :: "rat \<Rightarrow> rat \<Rightarrow> rat" where
  "dec_sub x y = dec_round (x - y)"

subsection \<open>The methods\<close>

text \<open>\<^verbatim>\<open>notify\<close> hands a message to the host; \<^verbatim>\<open>log_to_file\<close> appends one line to the file.\<close>

definition notify :: "string \<Rightarrow> 'a script \<Rightarrow> 'a script" where
  "notify msg s = s\<lparr>notifications := notifications s @ [msg]\<rparr>"

definition log_to_file :: "log_line \<Rightarrow> 'a script \<Rightarrow> 'a script" where
  "log_to_file message s = s\<lparr>log_file := log_file s @ [message]\<rparr>"

text \<open>The locals of \<^verbatim>\<open>on_tick\<close> that are computed from the host's values alone.\<close>

definition spread_adjustment :: "host \<Rightarrow> rat \<Rightarrow> rat" where
  "spread_adjustment h delta = round_by_step h delta (25 / 10000)"

definition overnight_spread_adjustment :: "int \<Rightarrow> rat" where
  "overnight_spread_adjustment hour = (if hour > 21 \<or> hour < 8 then 20 / 10000 else 0)"

text \<open>
  The first statement of \<^verbatim>\<open>on_tick\<close>: while \<^verbatim>\<open>original_bid_spread\<close> is \<^verbatim>\<open>None\<close>, both originals
  are taken from the parameters object.
\<close>

definition keep_originals :: "'a script \<Rightarrow> 'a script" where
  "keep_originals s =
     (if original_bid_spread s = None
      then s\<lparr>original_bid_spread := Some (bid_spread (pmm_parameters s)),
             original_ask_spread := Some (ask_spread (pmm_parameters s))\<rparr>
      else s)"

text \<open>
  \<^verbatim>\<open>on_tick\<close>, statement by statement. \<open>s1\<close> is the object after the originals are kept,
  \<open>s2\<close> after the tick is counted, \<open>s3\<close> after the hour is stored, \<open>s4\<close> after the spreads
  are written.
\<close>

definition on_tick :: "host \<Rightarrow> 'a script \<Rightarrow> error + 'a script" where
  "on_tick h s =
     (let s1 = keep_originals s;
          avg_short_volatility = avg_price_volatility h interval short_period;
          median_long_volatility = median_price_volatility h interval long_period;
          s2 = s1\<lparr>ticks := ticks s1 + 1\<rparr>
      in case avg_short_volatility of
           None \<Rightarrow> Inr s2
         | Some a \<Rightarrow>
             (case median_long_volatility of
                None \<Rightarrow> Inr s2
              | Some m \<Rightarrow>
                  if ticks s2 = interval * long_period + 1
                  then Inr (notify (''finished calculating averages : '' @ str_int (ticks s2) @ '' '') s2)
                  else
                    (let delta = dec_sub a m;
                         adj = spread_adjustment h delta;
                         s3 = s2\<lparr>hour_of_day := hour_syd h\<rparr>;
                         night = overnight_spread_adjustment (hour_of_day s3)
                     in case original_bid_spread s3 of
                          None \<Rightarrow> Inl TypeError
                        | Some ob \<Rightarrow>
                            (case original_ask_spread s3 of
                               None \<Rightarrow> Inl TypeError
                             | Some oa \<Rightarrow>
                                 (let new_bid_spread = dec_add (dec_add ob adj) night;
                                      new_ask_spread = dec_add (dec_add oa adj) night;
                                      s4 = s3\<lparr>pmm_parameters := (pmm_parameters s3)
                                              \<lparr>bid_spread := max ob new_bid_spread,
                                               ask_spread := max oa new_ask_spread\<rparr>\<rparr>
                                  in if new_bid_spread = ob then Inr s4
                                     else Inr (log_to_file
                                       \<lparr>stamp = stamp_syd h, avg_short_vol = a,
                                        median_long_vol = m, spread_adj = adj,
                                        overnight_spread_adj = night,
                                        new_bid = new_bid_spread,
                                        new_ask = new_ask_spread\<rparr> s4))))))"

text \<open>
  A run of the object: \<^verbatim>\<open>on_tick\<close> once per tick, each with what the host offers at that
  tick; an exception ends the run.
\<close>

fun run :: "host list \<Rightarrow> 'a script \<Rightarrow> error + 'a script" where
  "run [] s = Inr s"
| "run (h # hs) s = (case on_tick h s of Inl e \<Rightarrow> Inl e | Inr s' \<Rightarrow> run hs s')"

text \<open>\<^verbatim>\<open>on_status\<close> returns its text and the object as it leaves it.\<close>

definition on_status :: "'a script \<Rightarrow> string \<times> 'a script" where
  "on_status s =
     (''hour of day / ticks since start : '' @ str_int (hour_of_day s) @ '' + ''
        @ str_int (ticks s), s)"

subsection \<open>The inherited rounding\<close>

text \<open>
  Modelled from the spec: \<^verbatim>\<open>ScriptBase.round_by_step\<close>, which \<^verbatim>\<open>on_tick\<close> inherits and whose
  code is not in the source file. The spec says of it: "round to nearest 0.25% step". The
  number is divided by the step, the quotient is rounded to the nearest integer, and that
  many steps are returned. The spec gives no rule for a quotient half-way between two
  integers; \<open>round\<close> takes the upper one.
\<close>

definition round_by_step_spec :: "rat \<Rightarrow> rat \<Rightarrow> rat" where
  "round_by_step_spec a_number step_size = of_int (round (a_number / step_size)) * step_size"

subsection \<open>Concrete objects and ticks\<close>

text \<open>
  A parameters object with spreads of 0.8% and 0.9%, one with a further attribute besides
  the two spreads, and one whose bid spread has 28 significant digits.
\<close>

definition example_params :: pmm_params where
  "example_params = \<lparr>bid_spread = 8 / 1000, ask_spread = 9 / 1000\<rparr>"

definition wider_params :: "string pmm_params_scheme" where
  "wider_params = \<lparr>bid_spread = 8 / 1000, ask_spread = 9 / 1000, \<dots> = ''order_levels 3''\<rparr>"

definition precise_params :: pmm_params where
  "precise_params =
     \<lparr>bid_spread = 8000000000000000000000000001 / 1000000000000000000000000000000,
      ask_spread = 9 / 1000\<rparr>"

text \<open>
  Ticks as the host may present them. While the host is still collecting samples the
  long-period median is absent. On the day tick the short-term average (1.0%) is below
  the long-term median (1.5%) at noon; on the night tick it is above (2.5% against 1.5%)
  at 23 h, on the busy day tick it is above by as much at noon, and on the step tick it
  is above by one step (1.75% against 1.5%) at noon. All differences are whole multiples
  of the step, so every way of rounding to a step gives the same adjustment.
\<close>

definition warming_host :: host where
  "warming_host =
     \<lparr>avg_price_volatility = (\<lambda>i n. Some (100 / 10000)),
      median_price_volatility = (\<lambda>i n. None),
      round_by_step = round_by_step_spec, hour_syd = 23,
      stamp_syd = ''2021-03-01 23:00:00''\<rparr>"

definition day_host :: host where
  "day_host =
     \<lparr>avg_price_volatility = (\<lambda>i n. Some (100 / 10000)),
      median_price_volatility = (\<lambda>i n. Some (150 / 10000)),
      round_by_step = round_by_step_spec, hour_syd = 12,
      stamp_syd = ''2021-03-01 12:00:00''\<rparr>"

definition night_host :: host where
  "night_host =
     \<lparr>avg_price_volatility = (\<lambda>i n. Some (250 / 10000)),
      median_price_volatility = (\<lambda>i n. Some (150 / 10000)),
      round_by_step = round_by_step_spec, hour_syd = 23,
      stamp_syd = ''2021-03-01 23:00:00''\<rparr>"

definition busy_day_host :: host where
  "busy_day_host =
     \<lparr>avg_price_volatility = (\<lambda>i n. Some (250 / 10000)),
      median_price_volatility = (\<lambda>i n. Some (150 / 10000)),
      round_by_step = round_by_step_spec, hour_syd = 12,
      stamp_syd = ''2021-03-01 12:00:00''\<rparr>"

definition step_host :: host where
  "step_host =
     \<lparr>avg_price_volatility = (\<lambda>i n. Some (175 / 10000)),
      median_price_volatility = (\<lambda>i n. Some (150 / 10000)),
      round_by_step = round_by_step_spec, hour_syd = 12,
      stamp_syd = ''2021-03-01 12:00:00''\<rparr>"

text \<open>An object that has seen 9000 ticks and holds its originals.\<close>

definition seasoned_script :: "unit script" where
  "seasoned_script =
     \<lparr>ticks = 9000, hour_of_day = 0, original_bid_spread = Some (8 / 1000),
      original_ask_spread = Some (9 / 1000), pmm_parameters = example_params,
      notifications = [], log_file = []\<rparr>"

section \<open>Properties\<close>

subsection \<open>Rendered integers\<close>

lemma str_nat_digit: "n < 10 \<Longrightarrow> str_nat n = [''0123456789'' ! n]"
  by (subst str_nat.simps) simp

lemma str_nat_more:
  "\<not> n < 10 \<Longrightarrow> str_nat n = str_nat (n div 10) @ [''0123456789'' ! (n mod 10)]"
  by (subst str_nat.simps) simp

lemma str_nat_digits: "set (str_nat n) \<subseteq> set ''0123456789''"
proof (induction n rule: str_nat.induct)
  case (1 n)
  define ds where "ds = ''0123456789''"
  have len: "length ds = 10"
    by (simp add: ds_def)
  show ?case
  proof (cases "n < 10")
    case True
    then have "str_nat n = [ds ! n]"
      unfolding ds_def by (rule str_nat_digit)
    moreover from True len have "ds ! n \<in> set ds"
      by (simp only: nth_mem)
    ultimately show ?thesis
      unfolding ds_def [symmetric] by simp
  next
    case False
    then have "str_nat n = str_nat (n div 10) @ [ds ! (n mod 10)]"
      unfolding ds_def by (rule str_nat_more)
    moreover from len have "ds ! (n mod 10) \<in> set ds"
      by (intro nth_mem) simp
    moreover from False "1.IH" have "set (str_nat (n div 10)) \<subseteq> set ds"
      unfolding ds_def by simp
    ultimately show ?thesis
      unfolding ds_def [symmetric] by simp
  qed
qed

lemma str_int_chars: "set (str_int i) \<subseteq> set ''-0123456789''"
proof -
  have sub: "set ''0123456789'' \<subseteq> set ''-0123456789''"
    by (simp only: list.set) (rule subset_insertI)
  have "set (str_nat (nat i)) \<subseteq> set ''-0123456789''"
    using str_nat_digits sub by (rule order_trans)
  moreover have "set (str_nat (nat (- i))) \<subseteq> set ''-0123456789''"
    using str_nat_digits sub by (rule order_trans)
  ultimately show ?thesis
    by (simp add: str_int_def)
qed

subsection \<open>Rounding to the context precision\<close>

text \<open>
  \<open>adjusted x\<close> is the exponent of the leading digit: \<open>10 powi adjusted x \<le> \<bar>x\<bar>\<close> and
  \<open>\<bar>x\<bar> < 10 powi (adjusted x + 1)\<close>, and it is the only integer with these bounds. A value
  with at most 28 digits is not changed by the rounding.
\<close>

lemma round_half_even_of_int: "round_half_even (of_int z) = z"
  by (simp add: round_half_even_def)

lemma adjusted_le:
  assumes "x \<noteq> 0"
  shows "10 powi (adjusted x) \<le> \<bar>x\<bar>"
proof (cases "1 \<le> \<bar>x\<bar>")
  case True
  define n where "n = nat \<lfloor>\<bar>x\<bar>\<rfloor>"
  from True have n: "0 < n"
    by (simp add: n_def)
  then have fl: "0 < floorlog 10 n"
    by (simp add: floorlog_eq_zero_iff Suc_le_eq flip: neq0_conv)
  from floorlog_bounds [OF n, of 10] have "10 ^ (floorlog 10 n - 1) \<le> n"
    by simp
  then have "(10::rat) ^ (floorlog 10 n - 1) \<le> of_nat n"
    by (metis of_nat_le_iff of_nat_numeral of_nat_power)
  also have "(of_nat n :: rat) = of_int \<lfloor>\<bar>x\<bar>\<rfloor>"
    by (simp add: n_def)
  also have "\<dots> \<le> \<bar>x\<bar>"
    by simp
  finally have "(10::rat) ^ (floorlog 10 n - 1) \<le> \<bar>x\<bar>" .
  moreover from True fl have "adjusted x = int (floorlog 10 n - 1)"
    by (simp add: adjusted_def n_def Suc_le_eq)
  ultimately show ?thesis
    by simp
next
  case False
  define y where "y = 1 / \<bar>x\<bar>"
  define n where "n = nat (\<lceil>y\<rceil> - 1)"
  from False assms have y: "1 < y"
    by (simp add: y_def)
  then have "1 < \<lceil>y\<rceil>"
    by (simp add: less_ceiling_iff)
  then have n: "0 < n" and nc: "int n = \<lceil>y\<rceil> - 1"
    by (simp_all add: n_def)
  from floorlog_bounds [OF n, of 10] have "n < 10 ^ floorlog 10 n"
    by simp
  then have "int n < 10 ^ floorlog 10 n"
    by (metis of_nat_less_iff of_nat_numeral of_nat_power)
  with nc have "\<lceil>y\<rceil> \<le> 10 ^ floorlog 10 n"
    by simp
  then have "y \<le> of_int (10 ^ floorlog 10 n)"
    by (simp only: ceiling_le_iff)
  then have "y \<le> 10 ^ floorlog 10 n"
    by simp
  then have "1 / 10 ^ floorlog 10 n \<le> \<bar>x\<bar>"
    using assms by (simp add: y_def field_simps)
  moreover from False have "adjusted x = - int (floorlog 10 n)"
    by (simp add: adjusted_def n_def y_def)
  ultimately show ?thesis
    by (simp add: power_int_minus field_simps)
qed

lemma dec_round_exact:
  assumes x: "x = of_int c / 10 ^ k" and c: "\<bar>c\<bar> < 10 ^ 28"
  shows "dec_round x = x"
proof (cases "x = 0")
  case True
  then show ?thesis by (simp add: dec_round_def)
next
  case False
  define e where "e = adjusted x"
  have "10 powi e \<le> \<bar>x\<bar>"
    unfolding e_def using False by (rule adjusted_le)
  also have "\<bar>x\<bar> = of_int \<bar>c\<bar> / 10 ^ k"
    by (simp add: x)
  also have "\<dots> < 10 ^ 28 / 10 ^ k"
  proof -
    from c have "(of_int \<bar>c\<bar> :: rat) < of_int (10 ^ 28)"
      by (simp only: of_int_less_iff)
    then show ?thesis
      by (simp add: divide_strict_right_mono)
  qed
  finally have "(10::rat) powi e * 10 powi (int k) < 10 powi 28"
    by (simp add: field_simps)
  then have "(10::rat) powi (e + int k) < 10 powi 28"
    by (simp add: power_int_add)
  then have "e + int k < 28"
    by (rule power_int_le_imp_less_exp [rotated]) simp_all
  then have "0 \<le> 27 - e - int k"
    by simp
  then obtain j where j: "27 - e - int k = int j"
    by (rule nonneg_int_cases)
  have "x / 10 powi (e - 27) = x * 10 powi (27 - e)"
    by (simp add: power_int_diff field_simps)
  also have "27 - e = int j + int k"
    using j by simp
  also have "x * 10 powi (int j + int k) = of_int (c * 10 ^ j)"
    by (simp add: x power_int_add)
  finally have q: "x / 10 powi (e - 27) = of_int (c * 10 ^ j)" .
  have scaled: "of_int (c * 10 ^ j) * 10 powi (e - 27) = x"
    using q by (metis nonzero_divide_eq_eq power_int_eq_0_iff zero_neq_numeral)
  have "round_half_even (x / 10 powi (e - 27)) = c * 10 ^ j"
    unfolding q by (rule round_half_even_of_int)
  then have "dec_round x = of_int (c * 10 ^ j) * 10 powi (e - 27)"
    using False by (simp add: dec_round_def Let_def flip: e_def)
  with scaled show ?thesis
    by simp
qed


lemma adjusted_less:
  assumes "x \<noteq> 0"
  shows "\<bar>x\<bar> < 10 powi (adjusted x + 1)"
proof (cases "1 \<le> \<bar>x\<bar>")
  case True
  define n where "n = nat \<lfloor>\<bar>x\<bar>\<rfloor>"
  from True have n: "0 < n" and nc: "int n = \<lfloor>\<bar>x\<bar>\<rfloor>"
    by (simp_all add: n_def)
  from floorlog_bounds [OF n, of 10] have "n < 10 ^ floorlog 10 n"
    by simp
  then have "int n < 10 ^ floorlog 10 n"
    by (metis of_nat_less_iff of_nat_numeral of_nat_power)
  with nc have "\<lfloor>\<bar>x\<bar>\<rfloor> < 10 ^ floorlog 10 n"
    by simp
  then have "\<bar>x\<bar> < of_int (10 ^ floorlog 10 n)"
    by (simp only: floor_less_iff)
  moreover from True have "adjusted x + 1 = int (floorlog 10 n)"
    by (simp add: adjusted_def n_def)
  ultimately show ?thesis
    by simp
next
  case False
  define y where "y = 1 / \<bar>x\<bar>"
  define n where "n = nat (\<lceil>y\<rceil> - 1)"
  from False assms have y: "1 < y"
    by (simp add: y_def)
  then have "1 < \<lceil>y\<rceil>"
    by (simp add: less_ceiling_iff)
  then have n: "0 < n" and nc: "int n = \<lceil>y\<rceil> - 1"
    by (simp_all add: n_def)
  from n have fl: "0 < floorlog 10 n"
    by (simp add: floorlog_eq_zero_iff flip: neq0_conv)
  from floorlog_bounds [OF n, of 10] have "10 ^ (floorlog 10 n - 1) \<le> n"
    by simp
  then have "(10::int) ^ (floorlog 10 n - 1) \<le> int n"
    by (metis of_nat_le_iff of_nat_numeral of_nat_power)
  with nc have "(10::int) ^ (floorlog 10 n - 1) < \<lceil>y\<rceil>"
    by simp
  then have "of_int (10 ^ (floorlog 10 n - 1)) < y"
    by (simp only: less_ceiling_iff)
  then have "10 ^ (floorlog 10 n - 1) < y"
    by simp
  then have "\<bar>x\<bar> < 1 / 10 ^ (floorlog 10 n - 1)"
    using assms by (simp add: y_def field_simps)
  moreover from False fl have "adjusted x + 1 = - int (floorlog 10 n - 1)"
    by (simp add: adjusted_def n_def y_def Suc_le_eq)
  ultimately show ?thesis
    by (simp add: power_int_minus field_simps)
qed

lemma adjusted_eqI:
  assumes lo: "10 powi e \<le> \<bar>x\<bar>" and hi: "\<bar>x\<bar> < 10 powi (e + 1)"
  shows "adjusted x = e"
proof -
  have "\<not> (10::rat) powi e \<le> 0"
    by (simp add: not_le)
  with lo have nz: "x \<noteq> 0"
    by auto
  have "adjusted x < e + 1"
  proof (rule ccontr)
    assume "\<not> adjusted x < e + 1"
    then have "(10::rat) powi (e + 1) \<le> 10 powi (adjusted x)"
      by (intro power_int_increasing) simp_all
    with adjusted_le [OF nz] hi show False
      by simp
  qed
  moreover have "e < adjusted x + 1"
  proof (rule ccontr)
    assume "\<not> e < adjusted x + 1"
    then have "(10::rat) powi (adjusted x + 1) \<le> 10 powi e"
      by (intro power_int_increasing) simp_all
    with adjusted_less [OF nz] lo show False
      by simp
  qed
  ultimately show ?thesis
    by simp
qed

lemma dec_add_exact:
  "x + y = of_int c / 10 ^ k \<Longrightarrow> \<bar>c\<bar> < 10 ^ 28 \<Longrightarrow> dec_add x y = x + y"
  unfolding dec_add_def by (rule dec_round_exact)

lemma dec_sub_exact:
  "x - y = of_int c / 10 ^ k \<Longrightarrow> \<bar>c\<bar> < 10 ^ 28 \<Longrightarrow> dec_sub x y = x - y"
  unfolding dec_sub_def by (rule dec_round_exact)

text \<open>The sums and differences of the concrete ticks. Only the last one is rounded.\<close>

lemma dec_sub_250_150: "dec_sub (250 / 10000) (150 / 10000) = 100 / 10000"
  using dec_sub_exact [of "250 / 10000" "150 / 10000" 1 2] by simp

lemma dec_sub_100_150: "dec_sub (100 / 10000) (150 / 10000) = - (50 / 10000)"
  using dec_sub_exact [of "100 / 10000" "150 / 10000" "- 5" 3] by simp

lemma dec_sub_175_150: "dec_sub (175 / 10000) (150 / 10000) = 25 / 10000"
  using dec_sub_exact [of "175 / 10000" "150 / 10000" 25 4] by simp

lemma dec_add_8_100: "dec_add (8 / 1000) (100 / 10000) = 18 / 1000"
  using dec_add_exact [of "8 / 1000" "100 / 10000" 18 3] by simp

lemma dec_add_9_100: "dec_add (9 / 1000) (100 / 10000) = 19 / 1000"
  using dec_add_exact [of "9 / 1000" "100 / 10000" 19 3] by simp

lemma dec_add_18_20: "dec_add (18 / 1000) (20 / 10000) = 20 / 1000"
  using dec_add_exact [of "18 / 1000" "20 / 10000" 20 3] by simp

lemma dec_add_19_20: "dec_add (19 / 1000) (20 / 10000) = 21 / 1000"
  using dec_add_exact [of "19 / 1000" "20 / 10000" 21 3] by simp

lemma dec_add_18_0: "dec_add (18 / 1000) 0 = 18 / 1000"
  using dec_add_exact [of "18 / 1000" 0 18 3] by simp

lemma dec_add_19_0: "dec_add (19 / 1000) 0 = 19 / 1000"
  using dec_add_exact [of "19 / 1000" 0 19 3] by simp

lemma dec_add_8_m50: "dec_add (8 / 1000) (- (50 / 10000)) = 3 / 1000"
  using dec_add_exact [of "8 / 1000" "- (50 / 10000)" 3 3] by simp

lemma dec_add_9_m50: "dec_add (9 / 1000) (- (50 / 10000)) = 4 / 1000"
  using dec_add_exact [of "9 / 1000" "- (50 / 10000)" 4 3] by simp

lemma dec_add_3_0: "dec_add (3 / 1000) 0 = 3 / 1000"
  using dec_add_exact [of "3 / 1000" 0 3 3] by simp

lemma dec_add_4_0: "dec_add (4 / 1000) 0 = 4 / 1000"
  using dec_add_exact [of "4 / 1000" 0 4 3] by simp

lemma dec_add_9_25: "dec_add (9 / 1000) (25 / 10000) = 115 / 10000"
  using dec_add_exact [of "9 / 1000" "25 / 10000" 115 4] by simp

lemma dec_add_105_0: "dec_add (105 / 10000) 0 = 105 / 10000"
  using dec_add_exact [of "105 / 10000" 0 105 4] by simp

lemma dec_add_115_0: "dec_add (115 / 10000) 0 = 115 / 10000"
  using dec_add_exact [of "115 / 10000" 0 115 4] by simp

lemma dec_add_precise_25:
  "dec_add (8000000000000000000000000001 / 1000000000000000000000000000000) (25 / 10000)
     = 105 / 10000"
proof -
  let ?x = "10500000000000000000000000001 / 1000000000000000000000000000000 :: rat"
  have e: "adjusted ?x = - 2"
    by (rule adjusted_eqI) (simp_all add: power_int_minus)
  have "\<lfloor>10500000000000000000000000001 / 10 :: rat\<rfloor> = 1050000000000000000000000000"
    by (rule floor_unique) simp_all
  then have "round_half_even (10500000000000000000000000001 / 10)
      = 1050000000000000000000000000"
    by (simp add: round_half_even_def)
  then have "dec_round ?x = 105 / 10000"
    by (simp add: dec_round_def e power_int_minus)
  then show ?thesis
    by (simp add: dec_add_def)
qed

text \<open>The rounding of the concrete ticks, which are whole numbers of steps.\<close>

lemma round_by_step_spec_100: "round_by_step_spec (100 / 10000) (25 / 10000) = 100 / 10000"
  by (simp add: round_by_step_spec_def)

lemma round_by_step_spec_m50:
  "round_by_step_spec (- (50 / 10000)) (25 / 10000) = - (50 / 10000)"
  by (simp add: round_by_step_spec_def)

lemma round_by_step_spec_25: "round_by_step_spec (25 / 10000) (25 / 10000) = 25 / 10000"
  by (simp add: round_by_step_spec_def)

subsection \<open>The three ways through \<open>on_tick\<close>\<close>

lemma ticks_keep_originals: "ticks (keep_originals s) = ticks s"
  by (simp add: keep_originals_def)

lemma hour_of_day_keep_originals: "hour_of_day (keep_originals s) = hour_of_day s"
  by (simp add: keep_originals_def)

lemma pmm_parameters_keep_originals: "pmm_parameters (keep_originals s) = pmm_parameters s"
  by (simp add: keep_originals_def)

lemma log_file_keep_originals: "log_file (keep_originals s) = log_file s"
  by (simp add: keep_originals_def)

text \<open>A statistic is absent: the tick is counted and nothing else happens.\<close>

lemma on_tick_absent:
  "avg_price_volatility h interval short_period = None \<or>
   median_price_volatility h interval long_period = None \<Longrightarrow>
   on_tick h s = Inr ((keep_originals s)\<lparr>ticks := ticks s + 1\<rparr>)"
  by (auto simp: on_tick_def Let_def ticks_keep_originals split: option.splits)

text \<open>Both statistics are there and the counter reaches \<open>interval * long_period + 1\<close>.\<close>

lemma on_tick_finished:
  "avg_price_volatility h interval short_period = Some a \<Longrightarrow>
   median_price_volatility h interval long_period = Some m \<Longrightarrow>
   ticks s + 1 = interval * long_period + 1 \<Longrightarrow>
   on_tick h s =
     Inr (notify (''finished calculating averages : '' @ str_int (ticks s + 1) @ '' '')
       ((keep_originals s)\<lparr>ticks := ticks s + 1\<rparr>))"
  by (simp add: on_tick_def Let_def ticks_keep_originals)

text \<open>Both statistics are there on any other tick: the spreads are written.\<close>

lemma on_tick_adjusts:
  "avg_price_volatility h interval short_period = Some a \<Longrightarrow>
   median_price_volatility h interval long_period = Some m \<Longrightarrow>
   ticks s + 1 \<noteq> interval * long_period + 1 \<Longrightarrow>
   original_bid_spread (keep_originals s) = Some ob \<Longrightarrow>
   original_ask_spread (keep_originals s) = Some oa \<Longrightarrow>
   adj = spread_adjustment h (dec_sub a m) \<Longrightarrow>
   night = overnight_spread_adjustment (hour_syd h) \<Longrightarrow>
   nb = dec_add (dec_add ob adj) night \<Longrightarrow>
   na = dec_add (dec_add oa adj) night \<Longrightarrow>
   s4 = (keep_originals s)\<lparr>ticks := ticks s + 1, hour_of_day := hour_syd h,
          pmm_parameters := (pmm_parameters (keep_originals s))
            \<lparr>bid_spread := max ob nb, ask_spread := max oa na\<rparr>\<rparr> \<Longrightarrow>
   on_tick h s =
     Inr (if nb = ob then s4
          else log_to_file \<lparr>stamp = stamp_syd h, avg_short_vol = a, median_long_vol = m,
                 spread_adj = adj, overnight_spread_adj = night,
                 new_bid = nb, new_ask = na\<rparr> s4)"
  by (simp add: on_tick_def Let_def ticks_keep_originals)

text \<open>The fresh object and the concrete hosts.\<close>

lemma fresh_tick: "ticks (init p old) + 1 \<noteq> interval * long_period + 1"
  by (simp add: init_def interval_def long_period_def)

lemma fresh_bid:
  "original_bid_spread (keep_originals (init p old)) = Some (bid_spread p)"
  by (simp add: keep_originals_def init_def)

lemma fresh_ask:
  "original_ask_spread (keep_originals (init p old)) = Some (ask_spread p)"
  by (simp add: keep_originals_def init_def)

lemma night_host_values:
  "avg_price_volatility night_host interval short_period = Some (250 / 10000)"
  "median_price_volatility night_host interval long_period = Some (150 / 10000)"
  "hour_syd night_host = 23"
  "round_by_step night_host = round_by_step_spec"
  "stamp_syd night_host = ''2021-03-01 23:00:00''"
  by (simp_all add: night_host_def)

lemma busy_day_host_values:
  "avg_price_volatility busy_day_host interval short_period = Some (250 / 10000)"
  "median_price_volatility busy_day_host interval long_period = Some (150 / 10000)"
  "hour_syd busy_day_host = 12"
  "round_by_step busy_day_host = round_by_step_spec"
  "stamp_syd busy_day_host = ''2021-03-01 12:00:00''"
  by (simp_all add: busy_day_host_def)

lemma day_host_values:
  "avg_price_volatility day_host interval short_period = Some (100 / 10000)"
  "median_price_volatility day_host interval long_period = Some (150 / 10000)"
  "hour_syd day_host = 12"
  "round_by_step day_host = round_by_step_spec"
  "stamp_syd day_host = ''2021-03-01 12:00:00''"
  by (simp_all add: day_host_def)

lemma step_host_values:
  "avg_price_volatility step_host interval short_period = Some (175 / 10000)"
  "median_price_volatility step_host interval long_period = Some (150 / 10000)"
  "hour_syd step_host = 12"
  "round_by_step step_host = round_by_step_spec"
  "stamp_syd step_host = ''2021-03-01 12:00:00''"
  by (simp_all add: step_host_def)

lemma warming_host_values:
  "median_price_volatility warming_host interval long_period = None"
  "hour_syd warming_host = 23"
  by (simp_all add: warming_host_def)

lemma at_23: "(if (23::int) < 8 \<or> 21 < (23::int) then 20 / 10000 else 0) = (20 / 10000 :: rat)"
  by simp

lemma at_12: "(if (12::int) < 8 \<or> 21 < (12::int) then 20 / 10000 else 0) = (0 :: rat)"
  by simp

lemma example_params_values:
  "bid_spread example_params = 8 / 1000" "ask_spread example_params = 9 / 1000"
  by (simp_all add: example_params_def)

subsection \<open>The spreads that are written\<close>

text \<open>
  C1. On a tick on which both volatility queries return a value and on which the counter,
  once incremented, is not \<open>interval * long_period + 1\<close>, \<^verbatim>\<open>on_tick\<close> returns normally, the
  bid spread of the parameters object becomes the larger of the original bid spread and
  the original bid spread plus \<^verbatim>\<open>round_by_step\<close> of the short-term average minus the
  long-term median at step 0.0025 plus the overnight adjustment, and the ask spread
  becomes the same expression over the original ask spread. The overnight adjustment is
  0.0020 when the Sydney hour is below 8 or above 21, and 0 otherwise. The sums and the
  difference are the script's own, each rounded to the context precision. The originals
  are those the object holds once the first statement has kept them. This holds for
  whatever rounding the host's \<^verbatim>\<open>round_by_step\<close> performs.
\<close>

theorem on_tick_sets_spreads:
  assumes "avg_price_volatility h interval short_period = Some a"
    and "median_price_volatility h interval long_period = Some m"
    and "ticks s + 1 \<noteq> interval * long_period + 1"
    and "original_bid_spread (keep_originals s) = Some ob"
    and "original_ask_spread (keep_originals s) = Some oa"
  shows "\<exists>s'. on_tick h s = Inr s' \<and>
     bid_spread (pmm_parameters s') =
       max ob (dec_add (dec_add ob (round_by_step h (dec_sub a m) (25 / 10000)))
                 (if hour_syd h < 8 \<or> 21 < hour_syd h then 20 / 10000 else 0)) \<and>
     ask_spread (pmm_parameters s') =
       max oa (dec_add (dec_add oa (round_by_step h (dec_sub a m) (25 / 10000)))
                 (if hour_syd h < 8 \<or> 21 < hour_syd h then 20 / 10000 else 0)) \<and>
     original_bid_spread s' = Some ob \<and> original_ask_spread s' = Some oa"
proof -
  have "overnight_spread_adjustment (hour_syd h)
      = (if hour_syd h < 8 \<or> 21 < hour_syd h then 20 / 10000 else 0)"
    by (auto simp: overnight_spread_adjustment_def)
  with on_tick_adjusts [OF assms refl refl refl refl refl] assms(4,5) show ?thesis
    by (simp add: log_to_file_def spread_adjustment_def)
qed

text \<open>
  On a fresh object with spreads of 0.8% and 0.9% and an adjustment of 1.0%: the night
  tick writes 2.0% and 2.1%, the busy day tick writes 1.8% and 1.9%.
\<close>

theorem on_tick_sets_spreads_witness:
  "avg_price_volatility night_host interval short_period = Some (250 / 10000) \<and>
   median_price_volatility night_host interval long_period = Some (150 / 10000) \<and>
   avg_price_volatility busy_day_host interval short_period = Some (250 / 10000) \<and>
   median_price_volatility busy_day_host interval long_period = Some (150 / 10000) \<and>
   ticks (init example_params []) + 1 \<noteq> interval * long_period + 1 \<and>
   original_bid_spread (keep_originals (init example_params [])) = Some (8 / 1000) \<and>
   original_ask_spread (keep_originals (init example_params [])) = Some (9 / 1000) \<and>
   (\<exists>s'. on_tick night_host (init example_params []) = Inr s' \<and>
      bid_spread (pmm_parameters s') = 20 / 1000 \<and>
      ask_spread (pmm_parameters s') = 21 / 1000 \<and>
      original_bid_spread s' = Some (8 / 1000) \<and>
      original_ask_spread s' = Some (9 / 1000)) \<and>
   (\<exists>s'. on_tick busy_day_host (init example_params []) = Inr s' \<and>
      bid_spread (pmm_parameters s') = 18 / 1000 \<and>
      ask_spread (pmm_parameters s') = 19 / 1000 \<and>
      original_bid_spread s' = Some (8 / 1000) \<and>
      original_ask_spread s' = Some (9 / 1000))"
proof -
  note t = fresh_tick [of example_params "[]"]
  have ob: "original_bid_spread (keep_originals (init example_params [])) = Some (8 / 1000)"
    by (simp add: fresh_bid example_params_values)
  have oa: "original_ask_spread (keep_originals (init example_params [])) = Some (9 / 1000)"
    by (simp add: fresh_ask example_params_values)
  have night: "\<exists>s'. on_tick night_host (init example_params []) = Inr s' \<and>
      bid_spread (pmm_parameters s') = 20 / 1000 \<and>
      ask_spread (pmm_parameters s') = 21 / 1000 \<and>
      original_bid_spread s' = Some (8 / 1000) \<and>
      original_ask_spread s' = Some (9 / 1000)"
    using on_tick_sets_spreads [OF night_host_values(1,2) t ob oa]
    unfolding night_host_values dec_sub_250_150 round_by_step_spec_100 at_23
      dec_add_8_100 dec_add_9_100 dec_add_18_20 dec_add_19_20
    by simp
  have day: "\<exists>s'. on_tick busy_day_host (init example_params []) = Inr s' \<and>
      bid_spread (pmm_parameters s') = 18 / 1000 \<and>
      ask_spread (pmm_parameters s') = 19 / 1000 \<and>
      original_bid_spread s' = Some (8 / 1000) \<and>
      original_ask_spread s' = Some (9 / 1000)"
    using on_tick_sets_spreads [OF busy_day_host_values(1,2) t ob oa]
    unfolding busy_day_host_values dec_sub_250_150 round_by_step_spec_100 at_12
      dec_add_8_100 dec_add_9_100 dec_add_18_0 dec_add_19_0
    by simp
  from night day t ob oa night_host_values(1,2) busy_day_host_values(1,2) show ?thesis
    by blast
qed
text \<open>
  C2. With the inherited rounding as the spec describes it, the spread adjustment that
  \<^verbatim>\<open>on_tick\<close> computes from a volatility difference is a whole multiple of 0.0025, and no
  whole multiple of 0.0025 is closer to the difference.
\<close>

theorem spread_adjustment_nearest_step:
  assumes "round_by_step h = round_by_step_spec"
  shows "(\<exists>k::int. spread_adjustment h delta = of_int k * (25 / 10000)) \<and>
         (\<forall>j::int. \<bar>spread_adjustment h delta - delta\<bar>
                     \<le> \<bar>of_int j * (25 / 10000) - delta\<bar>)"
proof
  show "\<exists>k::int. spread_adjustment h delta = of_int k * (25 / 10000)"
    using assms by (auto simp: spread_adjustment_def round_by_step_spec_def)
next
  show "\<forall>j::int. \<bar>spread_adjustment h delta - delta\<bar>
                     \<le> \<bar>of_int j * (25 / 10000) - delta\<bar>"
  proof
    fix j :: int
    let ?z = "delta / (25 / 10000)"
    have near: "\<bar>?z - of_int (round ?z)\<bar> \<le> \<bar>?z - of_int j\<bar>"
      by (rule round_diff_minimal)
    have "\<bar>spread_adjustment h delta - delta\<bar>
            = \<bar>?z - of_int (round ?z)\<bar> * (25 / 10000)"
      using assms
      by (simp add: spread_adjustment_def round_by_step_spec_def abs_if field_simps)
    also have "\<dots> \<le> \<bar>?z - of_int j\<bar> * (25 / 10000)"
      using near by (simp add: mult_right_mono)
    also have "\<dots> = \<bar>of_int j * (25 / 10000) - delta\<bar>"
      by (simp add: abs_if field_simps)
    finally show "\<bar>spread_adjustment h delta - delta\<bar>
                     \<le> \<bar>of_int j * (25 / 10000) - delta\<bar>" .
  qed
qed

text \<open>
  A difference of 0.30% is adjusted to 0.25%.
\<close>

theorem spread_adjustment_nearest_step_witness:
  "round_by_step day_host = round_by_step_spec \<and>
   spread_adjustment day_host (30 / 10000) = 25 / 10000 \<and>
   (\<exists>k::int. spread_adjustment day_host (30 / 10000) = of_int k * (25 / 10000)) \<and>
   (\<forall>j::int. \<bar>spread_adjustment day_host (30 / 10000) - 30 / 10000\<bar>
               \<le> \<bar>of_int j * (25 / 10000) - 30 / 10000\<bar>)"
proof -
  have h: "round_by_step day_host = round_by_step_spec"
    by (simp add: day_host_def)
  have "round (6 / 5 :: rat) = 1"
    by (rule round_unique) simp_all
  then have v: "spread_adjustment day_host (30 / 10000) = 25 / 10000"
    by (simp add: spread_adjustment_def day_host_def round_by_step_spec_def)
  from spread_adjustment_nearest_step [OF h, of "30 / 10000"] h v show ?thesis
    by blast
qed

text \<open>
  C3, as stated, fails: not every tick adds an overnight adjustment. At 23 h, on tick
  9001 of an object with both statistics present, and on a tick of a fresh object while
  the long-period median is absent, \<^verbatim>\<open>on_tick\<close> returns before it reads the clock: the
  spreads stay at 0.8% and 0.9%, and the stored hour stays 0.
\<close>

theorem no_overnight_adjustment_on_early_return:
  "hour_syd night_host = 23 \<and>
   avg_price_volatility night_host interval short_period = Some (250 / 10000) \<and>
   median_price_volatility night_host interval long_period = Some (150 / 10000) \<and>
   pmm_parameters seasoned_script = \<lparr>bid_spread = 8 / 1000, ask_spread = 9 / 1000\<rparr> \<and>
   on_tick night_host seasoned_script =
     Inr \<lparr>ticks = 9001, hour_of_day = 0, original_bid_spread = Some (8 / 1000),
          original_ask_spread = Some (9 / 1000),
          pmm_parameters = \<lparr>bid_spread = 8 / 1000, ask_spread = 9 / 1000\<rparr>,
          notifications = [''finished calculating averages : 9001 ''], log_file = []\<rparr> \<and>
   hour_syd warming_host = 23 \<and>
   on_tick warming_host (init \<lparr>bid_spread = 8 / 1000, ask_spread = 9 / 1000\<rparr> []) =
     Inr \<lparr>ticks = 1, hour_of_day = 0, original_bid_spread = Some (8 / 1000),
          original_ask_spread = Some (9 / 1000),
          pmm_parameters = \<lparr>bid_spread = 8 / 1000, ask_spread = 9 / 1000\<rparr>,
          notifications = [], log_file = []\<rparr>"
proof -
  have t: "ticks seasoned_script + 1 = interval * long_period + 1"
    by (simp add: seasoned_script_def interval_def long_period_def)
  have str: "str_int (ticks seasoned_script + 1) = ''9001''"
    by (simp add: seasoned_script_def str_int_def str_nat_digit str_nat_more)
  have finished: "on_tick night_host seasoned_script =
     Inr \<lparr>ticks = 9001, hour_of_day = 0, original_bid_spread = Some (8 / 1000),
          original_ask_spread = Some (9 / 1000),
          pmm_parameters = \<lparr>bid_spread = 8 / 1000, ask_spread = 9 / 1000\<rparr>,
          notifications = [''finished calculating averages : 9001 ''], log_file = []\<rparr>"
    unfolding on_tick_finished [OF night_host_values(1,2) t] str
    by (simp add: notify_def keep_originals_def seasoned_script_def example_params_def)
  have warming: "on_tick warming_host (init \<lparr>bid_spread = 8 / 1000, ask_spread = 9 / 1000\<rparr> []) =
     Inr \<lparr>ticks = 1, hour_of_day = 0, original_bid_spread = Some (8 / 1000),
          original_ask_spread = Some (9 / 1000),
          pmm_parameters = \<lparr>bid_spread = 8 / 1000, ask_spread = 9 / 1000\<rparr>,
          notifications = [], log_file = []\<rparr>"
    unfolding on_tick_absent [OF disjI2, OF warming_host_values(1)]
    by (simp add: keep_originals_def init_def)
  from finished warming show ?thesis
    by (simp add: night_host_values warming_host_values seasoned_script_def
        example_params_def)
qed

text \<open>
  C3, amended. On a tick on which both volatility queries return a value and on which
  the counter, once incremented, is not \<open>interval * long_period + 1\<close>, the stored hour is
  the Sydney hour of that tick; when that hour is below 8 or above 21 the overnight
  adjustment is 0.0020 and that is what is added to both spreads after the spread
  adjustment, and when the hour is from 8 to 21 inclusive the overnight adjustment is 0
  and that is what is added. On every other tick (a statistic is absent, or the counter
  reaches \<open>interval * long_period + 1\<close>) the parameters object and the stored hour are left
  as they were, whatever the hour.
\<close>

theorem overnight_adjustment_by_hour:
  assumes "original_bid_spread (keep_originals s) = Some ob"
    and "original_ask_spread (keep_originals s) = Some oa"
  shows "\<exists>s'. on_tick h s = Inr s' \<and>
     (avg_price_volatility h interval short_period = Some a \<and>
      median_price_volatility h interval long_period = Some m \<and>
      ticks s + 1 \<noteq> interval * long_period + 1 \<longrightarrow>
        hour_of_day s' = hour_syd h \<and>
        (hour_syd h < 8 \<or> 21 < hour_syd h \<longrightarrow>
           overnight_spread_adjustment (hour_syd h) = 20 / 10000 \<and>
           bid_spread (pmm_parameters s') =
             max ob (dec_add (dec_add ob (spread_adjustment h (dec_sub a m))) (20 / 10000)) \<and>
           ask_spread (pmm_parameters s') =
             max oa (dec_add (dec_add oa (spread_adjustment h (dec_sub a m))) (20 / 10000))) \<and>
        (8 \<le> hour_syd h \<and> hour_syd h \<le> 21 \<longrightarrow>
           overnight_spread_adjustment (hour_syd h) = 0 \<and>
           bid_spread (pmm_parameters s') =
             max ob (dec_add (dec_add ob (spread_adjustment h (dec_sub a m))) 0) \<and>
           ask_spread (pmm_parameters s') =
             max oa (dec_add (dec_add oa (spread_adjustment h (dec_sub a m))) 0))) \<and>
     (avg_price_volatility h interval short_period = None \<or>
      median_price_volatility h interval long_period = None \<or>
      ticks s + 1 = interval * long_period + 1 \<longrightarrow>
        pmm_parameters s' = pmm_parameters s \<and> hour_of_day s' = hour_of_day s)"
proof -
  consider
    (absent) "avg_price_volatility h interval short_period = None \<or>
              median_price_volatility h interval long_period = None"
  | (finished) a' m' where "avg_price_volatility h interval short_period = Some a'"
      "median_price_volatility h interval long_period = Some m'"
      "ticks s + 1 = interval * long_period + 1"
  | (adjusts) a' m' where "avg_price_volatility h interval short_period = Some a'"
      "median_price_volatility h interval long_period = Some m'"
      "ticks s + 1 \<noteq> interval * long_period + 1"
    by (cases "avg_price_volatility h interval short_period";
        cases "median_price_volatility h interval long_period") auto
  then show ?thesis
  proof cases
    case absent
    from on_tick_absent [OF absent, of s] absent show ?thesis
      by (auto simp: pmm_parameters_keep_originals hour_of_day_keep_originals)
  next
    case finished
    from on_tick_finished [OF finished] finished show ?thesis
      by (simp add: notify_def pmm_parameters_keep_originals hour_of_day_keep_originals)
  next
    case adjusts
    from on_tick_adjusts [OF adjusts assms refl refl refl refl refl] adjusts
    show ?thesis
      by (auto simp: log_to_file_def overnight_spread_adjustment_def)
  qed
qed

text \<open>
  On a fresh object: the night tick (23 h) adds 0.20% on top of the adjustment of 1.0%,
  the busy day tick (12 h) adds nothing on top of it, and the tick without a median
  leaves the spreads and the stored hour alone.
\<close>

theorem overnight_adjustment_by_hour_witness:
  "original_bid_spread (keep_originals (init example_params [])) = Some (8 / 1000) \<and>
   original_ask_spread (keep_originals (init example_params [])) = Some (9 / 1000) \<and>
   avg_price_volatility night_host interval short_period = Some (250 / 10000) \<and>
   median_price_volatility night_host interval long_period = Some (150 / 10000) \<and>
   ticks (init example_params []) + 1 \<noteq> interval * long_period + 1 \<and>
   (hour_syd night_host < 8 \<or> 21 < hour_syd night_host) \<and>
   (\<exists>s'. on_tick night_host (init example_params []) = Inr s' \<and> hour_of_day s' = 23 \<and>
      overnight_spread_adjustment 23 = 20 / 10000 \<and>
      bid_spread (pmm_parameters s') = 20 / 1000 \<and>
      ask_spread (pmm_parameters s') = 21 / 1000) \<and>
   avg_price_volatility busy_day_host interval short_period = Some (250 / 10000) \<and>
   median_price_volatility busy_day_host interval long_period = Some (150 / 10000) \<and>
   8 \<le> hour_syd busy_day_host \<and> hour_syd busy_day_host \<le> 21 \<and>
   (\<exists>s'. on_tick busy_day_host (init example_params []) = Inr s' \<and> hour_of_day s' = 12 \<and>
      overnight_spread_adjustment 12 = 0 \<and>
      bid_spread (pmm_parameters s') = 18 / 1000 \<and>
      ask_spread (pmm_parameters s') = 19 / 1000) \<and>
   (avg_price_volatility warming_host interval short_period = None \<or>
    median_price_volatility warming_host interval long_period = None \<or>
    ticks (init example_params []) + 1 = interval * long_period + 1) \<and>
   (\<exists>s'. on_tick warming_host (init example_params []) = Inr s' \<and>
      pmm_parameters s' = example_params \<and> hour_of_day s' = 0)"
proof -
  note t = fresh_tick [of example_params "[]"]
  have ob: "original_bid_spread (keep_originals (init example_params [])) = Some (8 / 1000)"
    by (simp add: fresh_bid example_params_values)
  have oa: "original_ask_spread (keep_originals (init example_params [])) = Some (9 / 1000)"
    by (simp add: fresh_ask example_params_values)
  have nh: "hour_syd night_host < 8 \<or> 21 < hour_syd night_host"
    by (simp add: night_host_values)
  have dh: "8 \<le> hour_syd busy_day_host \<and> hour_syd busy_day_host \<le> 21"
    by (simp add: busy_day_host_values)
  have wh: "avg_price_volatility warming_host interval short_period = None \<or>
      median_price_volatility warming_host interval long_period = None \<or>
      ticks (init example_params []) + 1 = interval * long_period + 1"
    by (simp add: warming_host_values)
  have night: "\<exists>s'. on_tick night_host (init example_params []) = Inr s' \<and>
      hour_of_day s' = 23 \<and> overnight_spread_adjustment 23 = 20 / 10000 \<and>
      bid_spread (pmm_parameters s') = 20 / 1000 \<and>
      ask_spread (pmm_parameters s') = 21 / 1000"
    using overnight_adjustment_by_hour [OF ob oa, of night_host "250 / 10000" "150 / 10000"]
      night_host_values(1,2) t nh
    unfolding spread_adjustment_def night_host_values dec_sub_250_150
      round_by_step_spec_100 dec_add_8_100 dec_add_9_100 dec_add_18_20 dec_add_19_20
    by auto
  have day: "\<exists>s'. on_tick busy_day_host (init example_params []) = Inr s' \<and>
      hour_of_day s' = 12 \<and> overnight_spread_adjustment 12 = 0 \<and>
      bid_spread (pmm_parameters s') = 18 / 1000 \<and>
      ask_spread (pmm_parameters s') = 19 / 1000"
    using overnight_adjustment_by_hour [OF ob oa, of busy_day_host "250 / 10000" "150 / 10000"]
      busy_day_host_values(1,2) t dh
    unfolding spread_adjustment_def busy_day_host_values dec_sub_250_150
      round_by_step_spec_100 dec_add_8_100 dec_add_9_100 dec_add_18_0 dec_add_19_0
    by auto
  have warming: "\<exists>s'. on_tick warming_host (init example_params []) = Inr s' \<and>
      pmm_parameters s' = example_params \<and> hour_of_day s' = 0"
    using overnight_adjustment_by_hour [OF ob oa, of warming_host] wh
    by (auto simp: init_def)
  from ob oa night_host_values(1,2) busy_day_host_values(1,2) t nh dh wh night day warming
  show ?thesis
    by blast
qed

subsection \<open>The originals bound the spreads from below\<close>

lemma on_tick_first:
  assumes "original_bid_spread s = None"
  shows "\<exists>s'. on_tick h s = Inr s' \<and>
           original_bid_spread s' = Some (bid_spread (pmm_parameters s)) \<and>
           original_ask_spread s' = Some (ask_spread (pmm_parameters s)) \<and>
           bid_spread (pmm_parameters s) \<le> bid_spread (pmm_parameters s') \<and>
           ask_spread (pmm_parameters s) \<le> ask_spread (pmm_parameters s')"
  using assms
  by (auto simp: on_tick_def Let_def keep_originals_def notify_def log_to_file_def
      split: option.splits)

lemma on_tick_later:
  assumes "original_bid_spread s = Some ob" and "original_ask_spread s = Some oa"
    and "ob \<le> bid_spread (pmm_parameters s)" and "oa \<le> ask_spread (pmm_parameters s)"
  shows "\<exists>s'. on_tick h s = Inr s' \<and>
           original_bid_spread s' = Some ob \<and> original_ask_spread s' = Some oa \<and>
           ob \<le> bid_spread (pmm_parameters s') \<and> oa \<le> ask_spread (pmm_parameters s')"
  using assms
  by (auto simp: on_tick_def Let_def keep_originals_def notify_def log_to_file_def
      split: option.splits)

lemma run_later:
  assumes "original_bid_spread s = Some ob" and "original_ask_spread s = Some oa"
    and "ob \<le> bid_spread (pmm_parameters s)" and "oa \<le> ask_spread (pmm_parameters s)"
  shows "\<exists>s'. run hs s = Inr s' \<and>
           original_bid_spread s' = Some ob \<and> original_ask_spread s' = Some oa \<and>
           ob \<le> bid_spread (pmm_parameters s') \<and> oa \<le> ask_spread (pmm_parameters s')"
  using assms
proof (induction hs arbitrary: s)
  case Nil
  then show ?case by simp
next
  case (Cons h hs)
  from on_tick_later [OF Cons.prems, of h] obtain s1 where
    step: "on_tick h s = Inr s1" and
    inv: "original_bid_spread s1 = Some ob" "original_ask_spread s1 = Some oa"
      "ob \<le> bid_spread (pmm_parameters s1)" "oa \<le> ask_spread (pmm_parameters s1)"
    by blast
  from Cons.IH [OF inv] step show ?case by simp
qed

text \<open>
  C4. In every run of a freshly constructed object, whatever the host offers at each
  tick (volatilities present or absent, any hour) and however many ticks there are, no
  invocation raises, and after each invocation the originals are the spreads the
  parameters object had at the first tick, the bid spread in the parameters object is at
  least the original bid spread and the ask spread at least the original ask spread.
\<close>

theorem spreads_never_below_originals:
  "\<exists>s'. run (h # hs) (init p old) = Inr s' \<and>
     original_bid_spread s' = Some (bid_spread p) \<and>
     original_ask_spread s' = Some (ask_spread p) \<and>
     bid_spread p \<le> bid_spread (pmm_parameters s') \<and>
     ask_spread p \<le> ask_spread (pmm_parameters s')"
proof -
  have "original_bid_spread (init p old) = None"
    by (simp add: init_def)
  from on_tick_first [OF this, of h] obtain s1 where
    step: "on_tick h (init p old) = Inr s1" and
    inv: "original_bid_spread s1 = Some (bid_spread p)"
      "original_ask_spread s1 = Some (ask_spread p)"
      "bid_spread p \<le> bid_spread (pmm_parameters s1)"
      "ask_spread p \<le> ask_spread (pmm_parameters s1)"
    by (auto simp: init_def)
  from run_later [OF inv, of hs] step show ?thesis by simp
qed

subsection \<open>The log file\<close>

lemma overnight_23: "overnight_spread_adjustment 23 = 20 / 10000"
  by (simp add: overnight_spread_adjustment_def)

lemma overnight_12: "overnight_spread_adjustment 12 = 0"
  by (simp add: overnight_spread_adjustment_def)

text \<open>
  C5, as stated, fails. On the day tick both volatilities are there and the rounded
  difference is -0.50%: the bid spread in the parameters object is 0.8% before and after
  the tick, equal to the original, and yet the log file, empty before, has one line after.
\<close>

theorem log_line_despite_unchanged_bid:
  "avg_price_volatility day_host interval short_period = Some (100 / 10000) \<and>
   median_price_volatility day_host interval long_period = Some (150 / 10000) \<and>
   bid_spread (pmm_parameters (init example_params [])) = 8 / 1000 \<and>
   log_file (init example_params []) = [] \<and>
   on_tick day_host (init example_params []) =
     Inr \<lparr>ticks = 1, hour_of_day = 12, original_bid_spread = Some (8 / 1000),
          original_ask_spread = Some (9 / 1000),
          pmm_parameters = \<lparr>bid_spread = 8 / 1000, ask_spread = 9 / 1000\<rparr>,
          notifications = [],
          log_file = [\<lparr>stamp = ''2021-03-01 12:00:00'', avg_short_vol = 100 / 10000,
                       median_long_vol = 150 / 10000, spread_adj = - (50 / 10000),
                       overnight_spread_adj = 0, new_bid = 3 / 1000,
                       new_ask = 4 / 1000\<rparr>]\<rparr>"
proof -
  have "on_tick day_host (init example_params []) =
     Inr \<lparr>ticks = 1, hour_of_day = 12, original_bid_spread = Some (8 / 1000),
          original_ask_spread = Some (9 / 1000),
          pmm_parameters = \<lparr>bid_spread = 8 / 1000, ask_spread = 9 / 1000\<rparr>,
          notifications = [],
          log_file = [\<lparr>stamp = ''2021-03-01 12:00:00'', avg_short_vol = 100 / 10000,
                       median_long_vol = 150 / 10000, spread_adj = - (50 / 10000),
                       overnight_spread_adj = 0, new_bid = 3 / 1000,
                       new_ask = 4 / 1000\<rparr>]\<rparr>"
    unfolding on_tick_adjusts [OF day_host_values(1,2) fresh_tick fresh_bid fresh_ask
        refl refl refl refl refl]
      spread_adjustment_def day_host_values example_params_values dec_sub_100_150
      round_by_step_spec_m50 overnight_12 dec_add_8_m50 dec_add_9_m50 dec_add_3_0
      dec_add_4_0
    by (simp add: log_to_file_def keep_originals_def init_def example_params_def)
  then show ?thesis
    by (simp add: day_host_values init_def example_params_def)
qed

text \<open>
  C5, amended. On a tick on which both volatility queries return a value, \<^verbatim>\<open>on_tick\<close>
  appends exactly one line to the log file if the counter, once incremented, is not
  \<open>interval * long_period + 1\<close> and the new bid spread before the clamp, as the script
  computes it (original plus spread adjustment plus overnight adjustment), differs from
  the original bid spread; otherwise it appends nothing. When neither of the two sums is
  rounded, the new bid spread differs from the original exactly when the sum of the
  spread adjustment and the overnight adjustment is not zero, whether that sum is
  positive or negative.
\<close>

theorem log_line_iff_adjustment:
  assumes "avg_price_volatility h interval short_period = Some a"
    and "median_price_volatility h interval long_period = Some m"
    and "original_bid_spread (keep_originals s) = Some ob"
    and "original_ask_spread (keep_originals s) = Some oa"
  shows "\<exists>s'. on_tick h s = Inr s' \<and>
     log_file s' =
       (if ticks s + 1 \<noteq> interval * long_period + 1 \<and>
           dec_add (dec_add ob (spread_adjustment h (dec_sub a m)))
             (overnight_spread_adjustment (hour_syd h)) \<noteq> ob
        then log_file s @
          [\<lparr>stamp = stamp_syd h, avg_short_vol = a, median_long_vol = m,
            spread_adj = spread_adjustment h (dec_sub a m),
            overnight_spread_adj = overnight_spread_adjustment (hour_syd h),
            new_bid = dec_add (dec_add ob (spread_adjustment h (dec_sub a m)))
                        (overnight_spread_adjustment (hour_syd h)),
            new_ask = dec_add (dec_add oa (spread_adjustment h (dec_sub a m)))
                        (overnight_spread_adjustment (hour_syd h))\<rparr>]
        else log_file s) \<and>
     (dec_add ob (spread_adjustment h (dec_sub a m))
        = ob + spread_adjustment h (dec_sub a m) \<and>
      dec_add (ob + spread_adjustment h (dec_sub a m))
          (overnight_spread_adjustment (hour_syd h))
        = ob + spread_adjustment h (dec_sub a m) + overnight_spread_adjustment (hour_syd h)
      \<longrightarrow>
        (dec_add (dec_add ob (spread_adjustment h (dec_sub a m)))
             (overnight_spread_adjustment (hour_syd h)) \<noteq> ob
         \<longleftrightarrow> spread_adjustment h (dec_sub a m)
               + overnight_spread_adjustment (hour_syd h) \<noteq> 0))"
proof -
  have lines: "\<exists>s'. on_tick h s = Inr s' \<and>
     log_file s' =
       (if ticks s + 1 \<noteq> interval * long_period + 1 \<and>
           dec_add (dec_add ob (spread_adjustment h (dec_sub a m)))
             (overnight_spread_adjustment (hour_syd h)) \<noteq> ob
        then log_file s @
          [\<lparr>stamp = stamp_syd h, avg_short_vol = a, median_long_vol = m,
            spread_adj = spread_adjustment h (dec_sub a m),
            overnight_spread_adj = overnight_spread_adjustment (hour_syd h),
            new_bid = dec_add (dec_add ob (spread_adjustment h (dec_sub a m)))
                        (overnight_spread_adjustment (hour_syd h)),
            new_ask = dec_add (dec_add oa (spread_adjustment h (dec_sub a m)))
                        (overnight_spread_adjustment (hour_syd h))\<rparr>]
        else log_file s)"
  proof (cases "ticks s + 1 = interval * long_period + 1")
    case True
    with on_tick_finished [OF assms(1,2) True] show ?thesis
      by (simp add: notify_def log_file_keep_originals)
  next
    case False
    with on_tick_adjusts [OF assms(1,2) False assms(3,4) refl refl refl refl refl]
    show ?thesis
      by (auto simp: log_to_file_def log_file_keep_originals)
  qed
  have exact: "dec_add (dec_add ob x) y \<noteq> ob \<longleftrightarrow> x + y \<noteq> 0"
    if "dec_add ob x = ob + x" and "dec_add (ob + x) y = ob + x + y" for x y
    using that by simp
  from lines exact show ?thesis
    by blast
qed

text \<open>The night tick on a fresh object appends one line; no sum is rounded there.\<close>

theorem log_line_iff_adjustment_witness:
  "avg_price_volatility night_host interval short_period = Some (250 / 10000) \<and>
   median_price_volatility night_host interval long_period = Some (150 / 10000) \<and>
   original_bid_spread (keep_originals (init example_params [])) = Some (8 / 1000) \<and>
   original_ask_spread (keep_originals (init example_params [])) = Some (9 / 1000) \<and>
   dec_add (8 / 1000) (100 / 10000) = 8 / 1000 + 100 / 10000 \<and>
   dec_add (8 / 1000 + 100 / 10000) (20 / 10000) = 8 / 1000 + 100 / 10000 + 20 / 10000 \<and>
   (\<exists>s'. on_tick night_host (init example_params []) = Inr s' \<and>
      log_file s' =
        [\<lparr>stamp = ''2021-03-01 23:00:00'', avg_short_vol = 250 / 10000,
          median_long_vol = 150 / 10000, spread_adj = 100 / 10000,
          overnight_spread_adj = 20 / 10000, new_bid = 20 / 1000,
          new_ask = 21 / 1000\<rparr>]) \<and>
   (dec_add (dec_add (8 / 1000) (100 / 10000)) (20 / 10000) \<noteq> 8 / 1000
      \<longleftrightarrow> (100 / 10000 + 20 / 10000 :: rat) \<noteq> 0)"
proof -
  have ob: "original_bid_spread (keep_originals (init example_params [])) = Some (8 / 1000)"
    by (simp add: fresh_bid example_params_values)
  have oa: "original_ask_spread (keep_originals (init example_params [])) = Some (9 / 1000)"
    by (simp add: fresh_ask example_params_values)
  have e1: "dec_add (8 / 1000) (100 / 10000) = 8 / 1000 + 100 / 10000"
    using dec_add_8_100 by simp
  have e2: "dec_add (8 / 1000 + 100 / 10000) (20 / 10000)
      = 8 / 1000 + 100 / 10000 + 20 / 10000"
    using dec_add_18_20 by simp
  have t: "ticks (init example_params []) = 0" and l: "log_file (init example_params []) = []"
    by (simp_all add: init_def)
  have "(\<exists>s'. on_tick night_host (init example_params []) = Inr s' \<and>
      log_file s' =
        [\<lparr>stamp = ''2021-03-01 23:00:00'', avg_short_vol = 250 / 10000,
          median_long_vol = 150 / 10000, spread_adj = 100 / 10000,
          overnight_spread_adj = 20 / 10000, new_bid = 20 / 1000,
          new_ask = 21 / 1000\<rparr>]) \<and>
   (dec_add (8 / 1000) (100 / 10000) = 8 / 1000 + 100 / 10000 \<and>
    dec_add (8 / 1000 + 100 / 10000) (20 / 10000) = 8 / 1000 + 100 / 10000 + 20 / 10000
    \<longrightarrow> (dec_add (dec_add (8 / 1000) (100 / 10000)) (20 / 10000) \<noteq> 8 / 1000
      \<longleftrightarrow> (100 / 10000 + 20 / 10000 :: rat) \<noteq> 0))"
    using log_line_iff_adjustment [OF night_host_values(1,2) ob oa]
    unfolding spread_adjustment_def night_host_values dec_sub_250_150
      round_by_step_spec_100 overnight_23 t l
      dec_add_8_100 dec_add_9_100 dec_add_18_20 dec_add_19_20
    by (auto simp: interval_def long_period_def)
  with night_host_values(1,2) ob oa e1 e2 show ?thesis
    by blast
qed

subsection \<open>Ticks that leave the spreads alone\<close>

text \<open>
  C6. On a tick on which the short-period average or the long-period median is absent,
  \<^verbatim>\<open>on_tick\<close> returns normally and leaves the parameters object, the log file, the
  notifications and the stored hour as they were; the counter is incremented, and the
  originals are taken from the parameters object if they had not been kept before.
\<close>

theorem absent_volatility_changes_nothing:
  assumes "avg_price_volatility h interval short_period = None \<or>
           median_price_volatility h interval long_period = None"
  shows "\<exists>s'. on_tick h s = Inr s' \<and>
     pmm_parameters s' = pmm_parameters s \<and> log_file s' = log_file s \<and>
     notifications s' = notifications s \<and> hour_of_day s' = hour_of_day s \<and>
     ticks s' = ticks s + 1 \<and>
     original_bid_spread s' =
       (case original_bid_spread s of
          None \<Rightarrow> Some (bid_spread (pmm_parameters s)) | Some b \<Rightarrow> Some b) \<and>
     original_ask_spread s' =
       (case original_bid_spread s of
          None \<Rightarrow> Some (ask_spread (pmm_parameters s)) | Some b \<Rightarrow> original_ask_spread s)"
  using on_tick_absent [OF assms, of s]
  by (auto simp: keep_originals_def split: option.splits)

text \<open>
  A fresh object while the host has no long-period median yet.
\<close>

theorem absent_volatility_changes_nothing_witness:
  "(avg_price_volatility warming_host interval short_period = None \<or>
    median_price_volatility warming_host interval long_period = None) \<and>
   on_tick warming_host (init example_params []) =
     Inr \<lparr>ticks = 1, hour_of_day = 0, original_bid_spread = Some (8 / 1000),
          original_ask_spread = Some (9 / 1000), pmm_parameters = example_params,
          notifications = [], log_file = []\<rparr>"
proof -
  have hyp: "avg_price_volatility warming_host interval short_period = None \<or>
      median_price_volatility warming_host interval long_period = None"
    by (simp add: warming_host_def)
  from absent_volatility_changes_nothing [OF hyp, of "init example_params []"]
  obtain s' where "on_tick warming_host (init example_params []) = Inr s'"
    and "pmm_parameters s' = example_params" and "log_file s' = []"
    and "notifications s' = []" and "hour_of_day s' = 0" and "ticks s' = 1"
    and "original_bid_spread s' = Some (8 / 1000)"
    and "original_ask_spread s' = Some (9 / 1000)"
    by (auto simp: init_def example_params_def)
  then have "on_tick warming_host (init example_params []) =
     Inr \<lparr>ticks = 1, hour_of_day = 0, original_bid_spread = Some (8 / 1000),
          original_ask_spread = Some (9 / 1000), pmm_parameters = example_params,
          notifications = [], log_file = []\<rparr>"
    by (cases s') simp
  with hyp show ?thesis by simp
qed

text \<open>
  C7. Whenever \<^verbatim>\<open>on_tick\<close> returns, every attribute of the parameters object other than
  \<^verbatim>\<open>bid_spread\<close> and \<^verbatim>\<open>ask_spread\<close> is as it was before the invocation.
\<close>

theorem other_parameters_untouched:
  assumes "on_tick h s = Inr s'"
  shows "pmm_params.more (pmm_parameters s') = pmm_params.more (pmm_parameters s)"
  using assms
  by (auto simp: on_tick_def Let_def keep_originals_def notify_def log_to_file_def
      split: option.splits if_splits)

text \<open>The night tick on a parameters object with a further attribute.\<close>

theorem other_parameters_untouched_witness:
  "on_tick night_host (init wider_params []) =
     Inr \<lparr>ticks = 1, hour_of_day = 23, original_bid_spread = Some (8 / 1000),
          original_ask_spread = Some (9 / 1000),
          pmm_parameters = \<lparr>bid_spread = 20 / 1000, ask_spread = 21 / 1000,
                             \<dots> = ''order_levels 3''\<rparr>,
          notifications = [],
          log_file = [\<lparr>stamp = ''2021-03-01 23:00:00'', avg_short_vol = 250 / 10000,
                       median_long_vol = 150 / 10000, spread_adj = 100 / 10000,
                       overnight_spread_adj = 20 / 10000, new_bid = 20 / 1000,
                       new_ask = 21 / 1000\<rparr>]\<rparr> \<and>
   pmm_params.more \<lparr>bid_spread = 20 / 1000, ask_spread = 21 / 1000,
                     \<dots> = ''order_levels 3''\<rparr> =
     pmm_params.more (pmm_parameters (init wider_params []))"
proof -
  have w: "bid_spread wider_params = 8 / 1000" "ask_spread wider_params = 9 / 1000"
    by (simp_all add: wider_params_def)
  have run: "on_tick night_host (init wider_params []) =
     Inr \<lparr>ticks = 1, hour_of_day = 23, original_bid_spread = Some (8 / 1000),
          original_ask_spread = Some (9 / 1000),
          pmm_parameters = \<lparr>bid_spread = 20 / 1000, ask_spread = 21 / 1000,
                             \<dots> = ''order_levels 3''\<rparr>,
          notifications = [],
          log_file = [\<lparr>stamp = ''2021-03-01 23:00:00'', avg_short_vol = 250 / 10000,
                       median_long_vol = 150 / 10000, spread_adj = 100 / 10000,
                       overnight_spread_adj = 20 / 10000, new_bid = 20 / 1000,
                       new_ask = 21 / 1000\<rparr>]\<rparr>"
    unfolding on_tick_adjusts [OF night_host_values(1,2) fresh_tick fresh_bid fresh_ask
        refl refl refl refl refl]
      spread_adjustment_def night_host_values w dec_sub_250_150 round_by_step_spec_100
      overnight_23 dec_add_8_100 dec_add_9_100 dec_add_18_20 dec_add_19_20
    by (simp add: log_to_file_def keep_originals_def init_def wider_params_def)
  from other_parameters_untouched [OF run] run show ?thesis
    by simp
qed

text \<open>
  C8. \<^verbatim>\<open>on_status\<close> leaves the object, the parameters object included, as it was; the text
  it returns is the fixed heading followed by the stored hour and the tick count in
  decimal, and it consists of the letters of the heading, spaces, digits and the signs
  only.
\<close>

theorem on_status_reports_and_keeps_state:
  "snd (on_status s) = s \<and>
   fst (on_status s) =
     ''hour of day / ticks since start : '' @ str_int (hour_of_day s) @ '' + ''
       @ str_int (ticks s) \<and>
   set (fst (on_status s)) \<subseteq> set ''hour of day / ticks since start : + -0123456789''"
proof -
  have sub: "set ''-0123456789'' \<subseteq>
      set ''hour of day / ticks since start : + -0123456789''"
    by (simp only: set_append [of "''hour of day / ticks since start : + ''" "''-0123456789''",
          simplified append.simps]) (rule Un_upper2)
  have h: "set (str_int (hour_of_day s)) \<subseteq>
      set ''hour of day / ticks since start : + -0123456789''"
    using str_int_chars sub by (rule order_trans)
  have t: "set (str_int (ticks s)) \<subseteq>
      set ''hour of day / ticks since start : + -0123456789''"
    using str_int_chars sub by (rule order_trans)
  from h t show ?thesis
    by (simp add: on_status_def)
qed

text \<open>
  The status of an object after 9000 ticks.
\<close>

theorem on_status_reports_and_keeps_state_witness:
  "on_status seasoned_script =
     (''hour of day / ticks since start : 0 + 9000'', seasoned_script)"
proof -
  have "str_int (hour_of_day seasoned_script) = ''0''"
    by (simp add: seasoned_script_def str_int_def str_nat_digit)
  moreover have "str_int (ticks seasoned_script) = ''9000''"
    by (simp add: seasoned_script_def str_int_def str_nat_digit str_nat_more)
  ultimately show ?thesis
    using on_status_reports_and_keeps_state [of seasoned_script]
    by (simp add: prod_eq_iff)
qed

text \<open>
  C9. \<open>interval * long_period + 1\<close> is 9001. On the tick at which the incremented counter
  has that value and both volatilities are there, \<^verbatim>\<open>on_tick\<close> returns normally, hands one
  message to \<^verbatim>\<open>notify\<close>, and leaves the parameters object, the log file and the stored
  hour as they were.
\<close>

theorem finished_tick_only_notifies:
  assumes "avg_price_volatility h interval short_period = Some a"
    and "median_price_volatility h interval long_period = Some m"
    and "ticks s + 1 = interval * long_period + 1"
  shows "interval * long_period + 1 = 9001 \<and>
     (\<exists>s'. on_tick h s = Inr s' \<and>
        pmm_parameters s' = pmm_parameters s \<and> log_file s' = log_file s \<and>
        hour_of_day s' = hour_of_day s \<and> ticks s' = 9001 \<and>
        notifications s' = notifications s @ [''finished calculating averages : 9001 ''])"
proof -
  have n: "interval * long_period + 1 = 9001"
    by (simp add: interval_def long_period_def)
  with assms(3) have t: "ticks s + 1 = 9001"
    by simp
  have str: "str_int 9001 = ''9001''"
    by (simp add: str_int_def str_nat_digit str_nat_more)
  from on_tick_finished [OF assms] show ?thesis
    unfolding t str using n
    by (simp add: notify_def keep_originals_def)
qed

text \<open>
  Tick 9001 of an object, at night with the short-term average above the median.
\<close>

theorem finished_tick_only_notifies_witness:
  "avg_price_volatility night_host interval short_period = Some (250 / 10000) \<and>
   median_price_volatility night_host interval long_period = Some (150 / 10000) \<and>
   ticks seasoned_script + 1 = interval * long_period + 1 \<and>
   on_tick night_host seasoned_script =
     Inr \<lparr>ticks = 9001, hour_of_day = 0, original_bid_spread = Some (8 / 1000),
          original_ask_spread = Some (9 / 1000), pmm_parameters = example_params,
          notifications = [''finished calculating averages : 9001 ''], log_file = []\<rparr>"
proof -
  have a: "avg_price_volatility night_host interval short_period = Some (250 / 10000)"
    by (simp add: night_host_def)
  have m: "median_price_volatility night_host interval long_period = Some (150 / 10000)"
    by (simp add: night_host_def)
  have t: "ticks seasoned_script + 1 = interval * long_period + 1"
    by (simp add: seasoned_script_def interval_def long_period_def)
  from finished_tick_only_notifies [OF a m t]
  obtain s' where run: "on_tick night_host seasoned_script = Inr s'"
    and "pmm_parameters s' = example_params" and "log_file s' = []"
    and "hour_of_day s' = 0" and "ticks s' = 9001"
    and "notifications s' = [''finished calculating averages : 9001 '']"
    by (auto simp: seasoned_script_def)
  moreover from run have "original_bid_spread s' = Some (8 / 1000)"
    and "original_ask_spread s' = Some (9 / 1000)"
    by (auto simp: on_tick_def Let_def keep_originals_def notify_def seasoned_script_def
        night_host_def interval_def long_period_def)
  ultimately have "on_tick night_host seasoned_script =
     Inr \<lparr>ticks = 9001, hour_of_day = 0, original_bid_spread = Some (8 / 1000),
          original_ask_spread = Some (9 / 1000), pmm_parameters = example_params,
          notifications = [''finished calculating averages : 9001 ''], log_file = []\<rparr>"
    by (cases s') simp
  with a m t show ?thesis by simp
qed

subsection \<open>Both spreads move by the same amount\<close>

text \<open>
  C10, as stated, fails. On the step tick the adjustment is 0.25% and the hour is 12. The
  original bid spread 0.008000000000000000000000000001 has 28 significant digits; its
  sum with 0.0025 has 29 and is rounded to 0.0105, so the bid spread moves by
  0.002499999999999999999999999999, while the ask spread moves from 0.009 to 0.0115, by
  0.0025, the larger of 0 and the sum of the two adjustments.
\<close>

theorem added_amounts_differ_after_rounding:
  "on_tick step_host (init precise_params []) =
     Inr \<lparr>ticks = 1, hour_of_day = 12,
          original_bid_spread =
            Some (8000000000000000000000000001 / 1000000000000000000000000000000),
          original_ask_spread = Some (9 / 1000),
          pmm_parameters = \<lparr>bid_spread = 105 / 10000, ask_spread = 115 / 10000\<rparr>,
          notifications = [],
          log_file = [\<lparr>stamp = ''2021-03-01 12:00:00'', avg_short_vol = 175 / 10000,
                       median_long_vol = 150 / 10000, spread_adj = 25 / 10000,
                       overnight_spread_adj = 0, new_bid = 105 / 10000,
                       new_ask = 115 / 10000\<rparr>]\<rparr> \<and>
   (105 / 10000 - 8000000000000000000000000001 / 1000000000000000000000000000000 :: rat)
     = 2499999999999999999999999999 / 1000000000000000000000000000000 \<and>
   (115 / 10000 - 9 / 1000 :: rat) = 25 / 10000 \<and>
   max 0 (spread_adjustment step_host (dec_sub (175 / 10000) (150 / 10000))
            + overnight_spread_adjustment (hour_syd step_host)) = 25 / 10000 \<and>
   (2499999999999999999999999999 / 1000000000000000000000000000000 :: rat) \<noteq> 25 / 10000"
proof -
  have p: "bid_spread precise_params
      = 8000000000000000000000000001 / 1000000000000000000000000000000"
    "ask_spread precise_params = 9 / 1000"
    by (simp_all add: precise_params_def)
  have run: "on_tick step_host (init precise_params []) =
     Inr \<lparr>ticks = 1, hour_of_day = 12,
          original_bid_spread =
            Some (8000000000000000000000000001 / 1000000000000000000000000000000),
          original_ask_spread = Some (9 / 1000),
          pmm_parameters = \<lparr>bid_spread = 105 / 10000, ask_spread = 115 / 10000\<rparr>,
          notifications = [],
          log_file = [\<lparr>stamp = ''2021-03-01 12:00:00'', avg_short_vol = 175 / 10000,
                       median_long_vol = 150 / 10000, spread_adj = 25 / 10000,
                       overnight_spread_adj = 0, new_bid = 105 / 10000,
                       new_ask = 115 / 10000\<rparr>]\<rparr>"
    unfolding on_tick_adjusts [OF step_host_values(1,2) fresh_tick fresh_bid fresh_ask
        refl refl refl refl refl]
      spread_adjustment_def step_host_values p dec_sub_175_150 round_by_step_spec_25
      overnight_12 dec_add_precise_25 dec_add_9_25 dec_add_105_0 dec_add_115_0
    by (simp add: log_to_file_def keep_originals_def init_def precise_params_def)
  have moved: "max 0 (spread_adjustment step_host (dec_sub (175 / 10000) (150 / 10000))
            + overnight_spread_adjustment (hour_syd step_host)) = 25 / 10000"
    unfolding spread_adjustment_def step_host_values dec_sub_175_150 round_by_step_spec_25
      overnight_12
    by simp
  have bid: "(105 / 10000
        - 8000000000000000000000000001 / 1000000000000000000000000000000 :: rat)
      = 2499999999999999999999999999 / 1000000000000000000000000000000"
    by simp
  have ask: "(115 / 10000 - 9 / 1000 :: rat) = 25 / 10000"
    by simp
  have differ: "(2499999999999999999999999999 / 1000000000000000000000000000000 :: rat)
      \<noteq> 25 / 10000"
    by simp
  from run bid ask moved differ show ?thesis
    by blast
qed

text \<open>
  C10, amended. On a tick that writes the spreads and on which none of the four sums is
  rounded (original plus spread adjustment, and that sum plus overnight adjustment, for
  the bid and for the ask), the written bid spread minus the original bid spread equals
  the written ask spread minus the original ask spread, and both equal the larger of 0
  and the sum of the spread adjustment and the overnight adjustment.
\<close>

theorem added_amounts_equal:
  assumes "avg_price_volatility h interval short_period = Some a"
    and "median_price_volatility h interval long_period = Some m"
    and "ticks s + 1 \<noteq> interval * long_period + 1"
    and "original_bid_spread (keep_originals s) = Some ob"
    and "original_ask_spread (keep_originals s) = Some oa"
    and "dec_add ob (spread_adjustment h (dec_sub a m))
           = ob + spread_adjustment h (dec_sub a m)"
    and "dec_add (ob + spread_adjustment h (dec_sub a m))
             (overnight_spread_adjustment (hour_syd h))
           = ob + spread_adjustment h (dec_sub a m)
               + overnight_spread_adjustment (hour_syd h)"
    and "dec_add oa (spread_adjustment h (dec_sub a m))
           = oa + spread_adjustment h (dec_sub a m)"
    and "dec_add (oa + spread_adjustment h (dec_sub a m))
             (overnight_spread_adjustment (hour_syd h))
           = oa + spread_adjustment h (dec_sub a m)
               + overnight_spread_adjustment (hour_syd h)"
  shows "\<exists>s'. on_tick h s = Inr s' \<and>
     bid_spread (pmm_parameters s') - ob = ask_spread (pmm_parameters s') - oa \<and>
     bid_spread (pmm_parameters s') - ob =
       max 0 (spread_adjustment h (dec_sub a m)
                + overnight_spread_adjustment (hour_syd h))"
  using on_tick_adjusts [OF assms(1-5) refl refl refl refl refl] assms(6-9)
  by (auto simp: log_to_file_def max_def)

text \<open>
  The night tick on a fresh object: both spreads move by 1.2%, the adjustment of 1.0%
  and the overnight 0.2%.
\<close>

theorem added_amounts_equal_witness:
  "avg_price_volatility night_host interval short_period = Some (250 / 10000) \<and>
   median_price_volatility night_host interval long_period = Some (150 / 10000) \<and>
   ticks (init example_params []) + 1 \<noteq> interval * long_period + 1 \<and>
   original_bid_spread (keep_originals (init example_params [])) = Some (8 / 1000) \<and>
   original_ask_spread (keep_originals (init example_params [])) = Some (9 / 1000) \<and>
   spread_adjustment night_host (dec_sub (250 / 10000) (150 / 10000)) = 100 / 10000 \<and>
   overnight_spread_adjustment (hour_syd night_host) = 20 / 10000 \<and>
   dec_add (8 / 1000) (100 / 10000) = 8 / 1000 + 100 / 10000 \<and>
   dec_add (8 / 1000 + 100 / 10000) (20 / 10000) = 8 / 1000 + 100 / 10000 + 20 / 10000 \<and>
   dec_add (9 / 1000) (100 / 10000) = 9 / 1000 + 100 / 10000 \<and>
   dec_add (9 / 1000 + 100 / 10000) (20 / 10000) = 9 / 1000 + 100 / 10000 + 20 / 10000 \<and>
   (\<exists>s'. on_tick night_host (init example_params []) = Inr s' \<and>
      bid_spread (pmm_parameters s') - 8 / 1000 = ask_spread (pmm_parameters s') - 9 / 1000 \<and>
      bid_spread (pmm_parameters s') - 8 / 1000 = 12 / 1000)"
proof -
  note t = fresh_tick [of example_params "[]"]
  have ob: "original_bid_spread (keep_originals (init example_params [])) = Some (8 / 1000)"
    by (simp add: fresh_bid example_params_values)
  have oa: "original_ask_spread (keep_originals (init example_params [])) = Some (9 / 1000)"
    by (simp add: fresh_ask example_params_values)
  have sa: "spread_adjustment night_host (dec_sub (250 / 10000) (150 / 10000)) = 100 / 10000"
    unfolding spread_adjustment_def night_host_values dec_sub_250_150
    by (rule round_by_step_spec_100)
  have ov: "overnight_spread_adjustment (hour_syd night_host) = 20 / 10000"
    unfolding night_host_values by (rule overnight_23)
  have b1: "dec_add (8 / 1000) (100 / 10000) = 8 / 1000 + 100 / 10000"
    using dec_add_8_100 by simp
  have b2: "dec_add (8 / 1000 + 100 / 10000) (20 / 10000)
      = 8 / 1000 + 100 / 10000 + 20 / 10000"
    using dec_add_18_20 by simp
  have a1: "dec_add (9 / 1000) (100 / 10000) = 9 / 1000 + 100 / 10000"
    using dec_add_9_100 by simp
  have a2: "dec_add (9 / 1000 + 100 / 10000) (20 / 10000)
      = 9 / 1000 + 100 / 10000 + 20 / 10000"
    using dec_add_19_20 by simp
  have "\<exists>s'. on_tick night_host (init example_params []) = Inr s' \<and>
      bid_spread (pmm_parameters s') - 8 / 1000 = ask_spread (pmm_parameters s') - 9 / 1000 \<and>
      bid_spread (pmm_parameters s') - 8 / 1000 = 12 / 1000"
    using added_amounts_equal [OF night_host_values(1,2) t ob oa
        b1 [folded sa] b2 [folded sa ov] a1 [folded sa] a2 [folded sa ov]]
    unfolding sa ov by simp
  with night_host_values(1,2) t ob oa sa ov b1 b2 a1 a2 show ?thesis
    by blast
qed


end
